theory Spec2Isabelle
  imports Complex_Main "HOL-Library.Multiset"
begin

section \<open>Python values\<close>

text \<open>
  The site list is what \<^verbatim>\<open>json.load\<close> returns: every site is a dict from strings to
  JSON values. A float is only ever tested for truth, so it is kept as the number it
  denotes, with the three non-finite floats Python's parser also accepts. A Python
  string is modelled by the bytes of its UTF-8 encoding: a char below 128 is an ASCII
  character, and concatenation and the substring test are the same on the bytes as on the
  code points.
\<close>

datatype pyfloat = Finite rat | PosInf | NegInf | NaN

datatype pyval =
    PyNone
  | PyBool bool
  | PyInt int
  | PyFloat pyfloat
  | PyStr string
  | PyList "pyval list"
  | PyDict "(string \<times> pyval) list"

type_synonym pydict = "string \<rightharpoonup> pyval"

text \<open>\<^verbatim>\<open>bool(v)\<close>: what \<^verbatim>\<open>v and ...\<close> tests.\<close>

fun truthy :: "pyval \<Rightarrow> bool" where
  "truthy PyNone = False"
| "truthy (PyBool b) = b"
| "truthy (PyInt i) = (i \<noteq> 0)"
| "truthy (PyFloat f) = (f \<noteq> Finite 0)"
| "truthy (PyStr s) = (s \<noteq> [])"
| "truthy (PyList xs) = (xs \<noteq> [])"
| "truthy (PyDict kvs) = (kvs \<noteq> [])"

text \<open>\<^verbatim>\<open>type(v).__name__\<close>, as it appears in the message of an AttributeError.\<close>

fun type_name :: "pyval \<Rightarrow> string" where
  "type_name PyNone = ''NoneType''"
| "type_name (PyBool b) = ''bool''"
| "type_name (PyInt i) = ''int''"
| "type_name (PyFloat f) = ''float''"
| "type_name (PyStr s) = ''str''"
| "type_name (PyList xs) = ''list''"
| "type_name (PyDict kvs) = ''dict''"

text \<open>
  Exceptions that leave \<^verbatim>\<open>check_username\<close> and \<^verbatim>\<open>scan_username\<close>: the first four are
  raised by the three statements in front of the \<^verbatim>\<open>try\<close>, \<open>MarkupError\<close> is what the
  console raises on markup it cannot read. \<open>KeyError\<close> carries the missing key. Nothing
  in the program reads the message of one of these, so the messages are left out.
\<close>

datatype py_exception =
    KeyError string
  | ValueError
  | IndexError
  | AttributeError
  | MarkupError

text \<open>
  Exceptions raised inside the \<^verbatim>\<open>try\<close>, by the class the chain of \<^verbatim>\<open>except\<close>
  clauses tells apart; each carries \<^verbatim>\<open>str(e)\<close>. \<open>OtherException\<close> is any other subclass
  of \<^verbatim>\<open>Exception\<close>. (\<^verbatim>\<open>BaseException\<close>s that are no \<^verbatim>\<open>Exception\<close>, that is task
  cancellation and interpreter exit, are outside this model.)
\<close>

datatype caught_exception =
    TimeoutException string
  | ConnectError string
  | UnsupportedProtocol string
  | OtherException string

text \<open>\<^verbatim>\<open>d[k]\<close> and \<^verbatim>\<open>d.get(k, default)\<close>.\<close>

definition dict_item :: "pydict \<Rightarrow> string \<Rightarrow> py_exception + pyval" where
  "dict_item d k = (case d k of None \<Rightarrow> Inl (KeyError k) | Some v \<Rightarrow> Inr v)"

definition dict_get :: "pydict \<Rightarrow> string \<Rightarrow> pyval \<Rightarrow> pyval" where
  "dict_get d k dflt = (case d k of None \<Rightarrow> dflt | Some v \<Rightarrow> v)"

subsection \<open>Strings\<close>

text \<open>
  \<^verbatim>\<open>str.lower\<close>. On ASCII text it maps the letters A to Z and nothing else, which is
  computed here, char by char, by \<open>lower_ascii_char\<close>. On text with a code point above
  127 it follows the case mappings of Unicode, whose tables are not part of this model:
  there the result is whatever the interpreter gives, a parameter of the model.
\<close>

definition is_ascii :: "char \<Rightarrow> bool" where
  "is_ascii c = (\<not> digit7 c)"

definition lower_ascii_char :: "char \<Rightarrow> char" where
  "lower_ascii_char c =
     (case map_of (zip ''ABCDEFGHIJKLMNOPQRSTUVWXYZ'' ''abcdefghijklmnopqrstuvwxyz'') c of
        Some l \<Rightarrow> l
      | None \<Rightarrow> c)"

definition lower :: "(string \<Rightarrow> string) \<Rightarrow> string \<Rightarrow> string" where
  "lower beyond s = (if list_all is_ascii s then map lower_ascii_char s else beyond s)"

text \<open>\<^verbatim>\<open>a in b\<close> for two strings: \<open>a\<close> occurs in \<open>b\<close> as a contiguous run.\<close>

fun starts_with :: "string \<Rightarrow> string \<Rightarrow> bool" where
  "starts_with [] b = True"
| "starts_with (x # a) [] = False"
| "starts_with (x # a) (y # b) = (x = y \<and> starts_with a b)"

fun str_in :: "string \<Rightarrow> string \<Rightarrow> bool" where
  "str_in a [] = (a = [])"
| "str_in a (y # b) = (starts_with a (y # b) \<or> str_in a b)"

text \<open>\<^verbatim>\<open>str(n)\<close> for an int, as an f-string renders it.\<close>

fun str_nat :: "nat \<Rightarrow> string" where
  "str_nat n =
     (if n < 10 then [''0123456789'' ! n]
      else str_nat (n div 10) @ [''0123456789'' ! (n mod 10)])"

definition str_int :: "int \<Rightarrow> string" where
  "str_int i = (if i < 0 then CHR ''-'' # str_nat (nat (- i)) else str_nat (nat i))"

subsection \<open>\<^verbatim>\<open>str.format\<close> with the one keyword argument \<^verbatim>\<open>username\<close>\<close>

text \<open>
  \<^verbatim>\<open>template.format(username=username)\<close> reads the template from left to right and
  raises at the first thing it cannot do. Modelled in full: literal text, the escapes
  \<^verbatim>\<open>{{\<close> and \<^verbatim>\<open>}}\<close>, and replacement fields that are a bare name
  (\<^verbatim>\<open>{username}\<close>, \<^verbatim>\<open>{user}\<close>, \<^verbatim>\<open>{}\<close>, \<^verbatim>\<open>{0}\<close>). A field that uses more of the
  format mini-language (a conversion \<^verbatim>\<open>!r\<close>, a format spec after \<^verbatim>\<open>:\<close>, an attribute
  or index, a nested field, a positional index too long to be read at a glance, or a
  name that is not ASCII) is not computed here: for such a template the result is
  whatever the interpreter gives, a parameter of the model.
\<close>

datatype field_scan = Closed string string | Unclosed | Extended

fun scan_field :: "string \<Rightarrow> field_scan" where
  "scan_field [] = Unclosed"
| "scan_field (c # cs) =
     (if c = CHR ''}'' then Closed [] cs
      else if c \<in> set ''{!:.['' then Extended
      else (case scan_field cs of Closed f r \<Rightarrow> Closed (c # f) r | other \<Rightarrow> other))"

definition is_digit :: "char \<Rightarrow> bool" where
  "is_digit c = (c \<in> set ''0123456789'')"

datatype field_value = Rendered string | FieldError py_exception | Unmodelled

text \<open>
  The value of the field named \<open>name\<close>: no positional argument was passed, so an empty
  or numeric name is an IndexError; \<^verbatim>\<open>username\<close> is the only keyword.
\<close>

definition get_field :: "string \<Rightarrow> string \<Rightarrow> field_value" where
  "get_field name username =
     (if name = [] then FieldError IndexError
      else if \<not> list_all is_ascii name then Unmodelled
      else if list_all is_digit name then
        (if length name \<le> 9 then FieldError IndexError else Unmodelled)
      else if name = ''username'' then Rendered username
      else FieldError (KeyError name))"

lemma scan_field_shorter: "scan_field cs = Closed f r \<Longrightarrow> length r < Suc (length cs)"
  by (induction cs arbitrary: f r) (auto split: if_splits field_scan.splits)

text \<open>
  \<open>None\<close>: the template leaves the fragment above. \<open>Some (Inl e)\<close>: \<^verbatim>\<open>format\<close> raises
  \<open>e\<close>. \<open>Some (Inr s)\<close>: it returns \<open>s\<close>.
\<close>

definition prepend :: "string \<Rightarrow> (py_exception + string) option \<Rightarrow> (py_exception + string) option" where
  "prepend s r = (case r of Some (Inr t) \<Rightarrow> Some (Inr (s @ t)) | other \<Rightarrow> other)"

function format_scan :: "string \<Rightarrow> string \<Rightarrow> (py_exception + string) option" where
  "format_scan username [] = Some (Inr [])"
| "format_scan username (c # cs) =
     (if c = CHR ''{'' then
        (case cs of
           d # ds \<Rightarrow>
             if d = CHR ''{'' then prepend ''{'' (format_scan username ds)
             else (case scan_field cs of
                     Unclosed \<Rightarrow> Some (Inl ValueError)
                   | Extended \<Rightarrow> None
                   | Closed name rest \<Rightarrow>
                       (case get_field name username of
                          FieldError e \<Rightarrow> Some (Inl e)
                        | Unmodelled \<Rightarrow> None
                        | Rendered s \<Rightarrow> prepend s (format_scan username rest)))
         | [] \<Rightarrow> Some (Inl ValueError))
      else if c = CHR ''}'' then
        (case cs of
           d # ds \<Rightarrow>
             if d = CHR ''}'' then prepend ''}'' (format_scan username ds)
             else Some (Inl ValueError)
         | [] \<Rightarrow> Some (Inl ValueError))
      else prepend [c] (format_scan username cs))"
  by pat_completeness auto
termination
  by (relation "measure (\<lambda>(username, template). length template)")
     (auto simp del: scan_field.simps dest: scan_field_shorter)

definition str_format ::
  "(string \<Rightarrow> string \<Rightarrow> py_exception + string) \<Rightarrow> string \<Rightarrow> string \<Rightarrow> py_exception + string" where
  "str_format beyond template username =
     (case format_scan username template of
        None \<Rightarrow> beyond template username
      | Some r \<Rightarrow> r)"

subsection \<open>The libraries\<close>

text \<open>
  What the interpreter and the console do where this model does not compute it:
  \<^verbatim>\<open>str.format\<close> on a template beyond the fragment above, \<^verbatim>\<open>str.lower\<close> on text that is
  not ASCII, and the first statement of \<^verbatim>\<open>scan_username\<close>,
  \<^verbatim>\<open>console.print(Panel.fit(f"...[yellow]{username}[/yellow]", ...))\<close>, which reads the
  username as console markup and raises on markup it cannot read (a username such as
  \<^verbatim>\<open>[/x]\<close>); \<open>print_banner\<close> is the exception it raises for a username, if any.
\<close>

record runtime =
  format_beyond :: "string \<Rightarrow> string \<Rightarrow> py_exception + string"
  lower_beyond :: "string \<Rightarrow> string"
  print_banner :: "string \<Rightarrow> py_exception option"

section \<open>The checker\<close>

text \<open>
  The result of one probe is a dict with the four keys \<^verbatim>\<open>site\<close>, \<^verbatim>\<open>url\<close>,
  \<^verbatim>\<open>status\<close> and \<^verbatim>\<open>error\<close>; \<^verbatim>\<open>self.results\<close> is a dict with the three keys
  \<^verbatim>\<open>found\<close>, \<^verbatim>\<open>not_found\<close> and \<^verbatim>\<open>errors\<close>.
\<close>

record verdict =
  site :: pyval
  url :: string
  status :: string
  error :: "string option"

record result_set =
  found :: "verdict list"
  not_found :: "verdict list"
  errors :: "verdict list"

record checker =
  sites_file :: string
  timeout :: int
  rate_limit :: rat
  sites :: "pydict list"
  results :: result_set

text \<open>
  \<^verbatim>\<open>__init__\<close>: no site is loaded and the three buckets are empty. The delay
  \<^verbatim>\<open>rate_limit\<close> is a finite number of seconds; it is handed to \<^verbatim>\<open>asyncio.sleep\<close> and
  never computed with.
\<close>

definition UsernameChecker :: "string \<Rightarrow> int \<Rightarrow> rat \<Rightarrow> checker" where
  "UsernameChecker file t r =
     \<lparr>sites_file = file, timeout = t, rate_limit = r, sites = [],
      results = \<lparr>found = [], not_found = [], errors = []\<rparr>\<rparr>"

subsection \<open>The transport\<close>

text \<open>
  \<^verbatim>\<open>client.get(url, headers=headers, timeout=self.timeout, follow_redirects=True)\<close>
  either returns a response, of which the program reads \<^verbatim>\<open>status_code\<close> and
  \<^verbatim>\<open>text\<close>, or raises. What the probe does to the outside is recorded as events.
\<close>

record request =
  req_url :: string
  user_agent :: string
  req_timeout :: int

datatype transport_outcome = Response int string | Raised caught_exception

text \<open>
  httpx tells what went wrong with a request by the class of the exception it raises.
  A request that exceeds its timeout raises a \<^verbatim>\<open>TimeoutException\<close>. A connection that
  cannot be established raises a \<^verbatim>\<open>ConnectError\<close>, and so does a TLS handshake that fails
  (a certificate that is not accepted, no protocol version in common): it fails while
  the connection is set up. \<^verbatim>\<open>UnsupportedProtocol\<close> is raised for a URL whose scheme is
  not \<^verbatim>\<open>http\<close> or \<^verbatim>\<open>https\<close>, before anything is sent. Each failure carries the text of
  its exception.
\<close>

datatype transport_failure =
    TimedOut string
  | ConnectionNotEstablished string
  | TlsNegotiationFailed string
  | SchemeNotSupported string

fun httpx_raises :: "transport_failure \<Rightarrow> caught_exception" where
  "httpx_raises (TimedOut m) = TimeoutException m"
| "httpx_raises (ConnectionNotEstablished m) = ConnectError m"
| "httpx_raises (TlsNegotiationFailed m) = ConnectError m"
| "httpx_raises (SchemeNotSupported m) = UnsupportedProtocol m"

datatype event = Get request | Sleep rat

definition USER_AGENTS :: "string list" where
  "USER_AGENTS =
     [''Mozilla/5.0 (Windows NT 10.0; Win64; x64) AppleWebKit/537.36 (KHTML, like Gecko) Chrome/120.0.0.0 Safari/537.36'',
      ''Mozilla/5.0 (Macintosh; Intel Mac OS X 10_15_7) AppleWebKit/537.36 (KHTML, like Gecko) Chrome/120.0.0.0 Safari/537.36'',
      ''Mozilla/5.0 (X11; Linux x86_64) AppleWebKit/537.36 (KHTML, like Gecko) Chrome/120.0.0.0 Safari/537.36'',
      ''Mozilla/5.0 (Windows NT 10.0; Win64; x64; rv:121.0) Gecko/20100101 Firefox/121.0'',
      ''Mozilla/5.0 (Macintosh; Intel Mac OS X 10_15_7) AppleWebKit/605.1.15 (KHTML, like Gecko) Version/17.1 Safari/605.1.15'']"

text \<open>\<^verbatim>\<open>random.choice(pool)\<close> for a pool that is not empty; \<open>draw\<close> is the random source.\<close>

definition random_choice :: "'a list \<Rightarrow> nat \<Rightarrow> 'a" where
  "random_choice pool draw = pool ! (draw mod length pool)"

subsection \<open>\<^verbatim>\<open>check_username\<close>\<close>

definition quote :: string where
  "quote = [CHR 0x27]"

text \<open>
  \<^verbatim>\<open>error_message and error_message.lower() in response.text.lower()\<close>: a false value
  ends the test; a true one that is no string has no \<^verbatim>\<open>lower\<close>.
\<close>

definition marker_in_body :: "runtime \<Rightarrow> pyval \<Rightarrow> string \<Rightarrow> caught_exception + bool" where
  "marker_in_body rt error_message text =
     (if \<not> truthy error_message then Inr False
      else (case error_message of
              PyStr m \<Rightarrow> Inr (str_in (lower (lower_beyond rt) m) (lower (lower_beyond rt) text))
            | v \<Rightarrow> Inl (OtherException
                       (quote @ type_name v @ quote @ '' object has no attribute ''
                          @ quote @ ''lower'' @ quote))))"

text \<open>
  The detection logic (the two branches on \<^verbatim>\<open>detection_type\<close>): the result as it stands
  when the logic ends, and the exception that ended it, if one did.
\<close>

definition detect ::
  "runtime \<Rightarrow> pydict \<Rightarrow> pyval \<Rightarrow> int \<Rightarrow> string \<Rightarrow> verdict
     \<Rightarrow> verdict \<times> caught_exception option" where
  "detect rt site' detection_type status_code text result =
     (if detection_type = PyStr ''status_code'' then
        (if status_code = 200 then (result\<lparr>status := ''found''\<rparr>, None)
         else if status_code = 404 then (result\<lparr>status := ''not_found''\<rparr>, None)
         else (result\<lparr>status := ''unknown'',
                      error := Some (''Unexpected status: '' @ str_int status_code)\<rparr>, None))
      else if detection_type = PyStr ''message_body'' then
        (let error_message = dict_get site' ''error_message'' (PyStr [])
         in if status_code = 200 then
              (case marker_in_body rt error_message text of
                 Inl e \<Rightarrow> (result, Some e)
               | Inr True \<Rightarrow> (result\<lparr>status := ''not_found''\<rparr>, None)
               | Inr False \<Rightarrow> (result\<lparr>status := ''found''\<rparr>, None))
            else if status_code = 404 then (result\<lparr>status := ''not_found''\<rparr>, None)
            else (result\<lparr>status := ''unknown'',
                         error := Some (''Status: '' @ str_int status_code)\<rparr>, None))
      else (result, None))"

text \<open>The four \<^verbatim>\<open>except\<close> clauses, in their order.\<close>

fun handle_exception :: "caught_exception \<Rightarrow> verdict \<Rightarrow> verdict" where
  "handle_exception (TimeoutException m) result =
     result\<lparr>status := ''error'', error := Some ''Timeout''\<rparr>"
| "handle_exception (ConnectError m) result =
     result\<lparr>status := ''error'', error := Some ''Connection failed''\<rparr>"
| "handle_exception (UnsupportedProtocol m) result =
     result\<lparr>status := ''error'', error := Some ''SSL/TLS error''\<rparr>"
| "handle_exception (OtherException m) result =
     result\<lparr>status := ''error'', error := Some m\<rparr>"

text \<open>
  The body of the \<^verbatim>\<open>try\<close>: the request, the detection logic and, when both went
  through, the sleep.
\<close>

definition try_body ::
  "runtime \<Rightarrow> nat \<Rightarrow> checker \<Rightarrow> pydict \<Rightarrow> pyval \<Rightarrow> (request \<Rightarrow> transport_outcome)
     \<Rightarrow> verdict \<Rightarrow> event list \<times> verdict \<times> caught_exception option" where
  "try_body rt draw self site' detection_type client result =
     (let headers = random_choice USER_AGENTS draw;
          req = \<lparr>req_url = url result, user_agent = headers, req_timeout = timeout self\<rparr>
      in case client req of
           Raised e \<Rightarrow> ([Get req], result, Some e)
         | Response status_code text \<Rightarrow>
             (case detect rt site' detection_type status_code text result of
                (result', Some e) \<Rightarrow> ([Get req], result', Some e)
              | (result', None) \<Rightarrow> ([Get req, Sleep (rate_limit self)], result', None)))"

text \<open>\<^verbatim>\<open>site['url_template'].format(username=username)\<close>: only a string has \<^verbatim>\<open>format\<close>.\<close>

definition format_template ::
  "(string \<Rightarrow> string \<Rightarrow> py_exception + string) \<Rightarrow> pyval \<Rightarrow> string \<Rightarrow> py_exception + string" where
  "format_template beyond template username =
     (case template of
        PyStr t \<Rightarrow> str_format beyond t username
      | v \<Rightarrow> Inl AttributeError)"

text \<open>
  \<^verbatim>\<open>check_username(self, site, username, client)\<close>. The three statements in front of
  the \<^verbatim>\<open>try\<close> raise to the caller; whatever the body of the \<^verbatim>\<open>try\<close> raises is turned
  into a result by the \<^verbatim>\<open>except\<close> clauses. The value is the events of the call and
  either the exception it raises or the dict it returns.
\<close>

definition check_username ::
  "runtime \<Rightarrow> nat \<Rightarrow> checker \<Rightarrow> pydict \<Rightarrow> string
     \<Rightarrow> (request \<Rightarrow> transport_outcome) \<Rightarrow> event list \<times> (py_exception + verdict)" where
  "check_username rt draw self site' username client =
     (case dict_item site' ''name'' of
        Inl e \<Rightarrow> ([], Inl e)
      | Inr site_name \<Rightarrow>
     (case dict_item site' ''url_template'' of
        Inl e \<Rightarrow> ([], Inl e)
      | Inr template \<Rightarrow>
     (case format_template (format_beyond rt) template username of
        Inl e \<Rightarrow> ([], Inl e)
      | Inr url' \<Rightarrow>
     (case dict_item site' ''detection_type'' of
        Inl e \<Rightarrow> ([], Inl e)
      | Inr detection_type \<Rightarrow>
         (let result = \<lparr>site = site_name, url = url', status = ''unknown'', error = None\<rparr>
          in case try_body rt draw self site' detection_type client result of
               (evs, result', None) \<Rightarrow> (evs, Inr result')
             | (evs, result', Some e) \<Rightarrow> (evs, Inr (handle_exception e result')))))))"

subsection \<open>\<^verbatim>\<open>scan_username\<close>\<close>

text \<open>
  \<^verbatim>\<open>asyncio.as_completed(tasks)\<close> hands the tasks over in the order in which they
  finish, which the program does not determine. The order is a parameter: each number
  of \<open>order\<close> says which of the tasks still pending finishes next (counted among the
  pending ones, modulo how many they are); when \<open>order\<close> runs out the rest finish in the
  order of submission. Every order of completion is the value for some \<open>order\<close>.
\<close>

fun as_completed :: "nat list \<Rightarrow> 'a list \<Rightarrow> 'a list" where
  "as_completed [] pending = pending"
| "as_completed (p # order) pending =
     (if pending = [] then []
      else (let i = p mod length pending
            in pending ! i # as_completed order (take i pending @ drop (Suc i) pending)))"

text \<open>The three-way \<^verbatim>\<open>if\<close> on \<^verbatim>\<open>result['status']\<close>.\<close>

definition categorize :: "result_set \<Rightarrow> verdict \<Rightarrow> result_set" where
  "categorize r result =
     (if status result = ''found'' then r\<lparr>found := found r @ [result]\<rparr>
      else if status result = ''not_found'' then r\<lparr>not_found := not_found r @ [result]\<rparr>
      else r\<lparr>errors := errors r @ [result]\<rparr>)"

text \<open>
  The \<^verbatim>\<open>for\<close> loop over the finished tasks: \<^verbatim>\<open>await coro\<close> raises what the task
  raised, which ends the loop with the buckets as they are then.
\<close>

fun drain :: "result_set \<Rightarrow> (py_exception + verdict) list \<Rightarrow> py_exception option \<times> result_set" where
  "drain r [] = (None, r)"
| "drain r (Inl e # rest) = (Some e, r)"
| "drain r (Inr result # rest) = drain (categorize r result) rest"

text \<open>
  What a scan meets outside the program: the libraries, the random draw of each task,
  what the network answers to the request of each task, and the order in which the tasks
  finish. Tasks are numbered in the order of \<^verbatim>\<open>self.sites\<close>.
\<close>

record world =
  interpreter :: runtime
  draws :: "nat \<Rightarrow> nat"
  network :: "nat \<Rightarrow> request \<Rightarrow> transport_outcome"
  order :: "nat list"

definition tasks :: "world \<Rightarrow> checker \<Rightarrow> string \<Rightarrow> (py_exception + verdict) list" where
  "tasks w self username =
     map (\<lambda>(i, site'). snd (check_username (interpreter w) (draws w i) self site' username (network w i)))
       (enumerate 0 (sites self))"

text \<open>
  \<^verbatim>\<open>scan_username(self, username)\<close>: the exception it raises or the dict it returns
  (\<^verbatim>\<open>self.results\<close>), and the checker as the call leaves it. The banner is printed
  first, before any task exists; an exception of the console there leaves the call at
  once. Creating the client and the progress bar does not depend on the username or the
  sites and is taken to succeed; the output of the progress bar is not modelled.
\<close>

definition scan_username :: "world \<Rightarrow> checker \<Rightarrow> string \<Rightarrow> (py_exception + result_set) \<times> checker" where
  "scan_username w self username =
     (case print_banner (interpreter w) username of
        Some e \<Rightarrow> (Inl e, self)
      | None \<Rightarrow>
          (case drain (results self) (as_completed (order w) (tasks w self username)) of
             (None, r) \<Rightarrow> (Inr r, self\<lparr>results := r\<rparr>)
           | (Some e, r) \<Rightarrow> (Inl e, self\<lparr>results := r\<rparr>)))"

section \<open>Properties of the helpers\<close>

text \<open>\<open>str_in\<close> is the substring test: \<open>a\<close> occurs in \<open>b\<close> between some prefix and suffix.\<close>

lemma starts_with_iff: "starts_with a b \<longleftrightarrow> (\<exists>s. b = a @ s)"
  by (induction a b rule: starts_with.induct) auto

lemma str_in_iff: "str_in a b \<longleftrightarrow> (\<exists>p s. b = p @ a @ s)"
proof (induction b)
  case Nil
  then show ?case by simp
next
  case (Cons y b)
  show ?case
  proof
    assume "str_in a (y # b)"
    then consider "starts_with a (y # b)" | "str_in a b" by auto
    then show "\<exists>p s. y # b = p @ a @ s"
    proof cases
      case 1
      then obtain s where "y # b = a @ s" by (auto simp: starts_with_iff)
      then have "y # b = [] @ a @ s" by simp
      then show ?thesis by blast
    next
      case 2
      with Cons.IH obtain p s where "b = p @ a @ s" by blast
      then have "y # b = (y # p) @ a @ s" by simp
      then show ?thesis by blast
    qed
  next
    assume "\<exists>p s. y # b = p @ a @ s"
    then obtain p s where ps: "y # b = p @ a @ s" by blast
    show "str_in a (y # b)"
    proof (cases p)
      case Nil
      with ps have "starts_with a (y # b)" by (auto simp: starts_with_iff)
      then show ?thesis by simp
    next
      case (Cons z q)
      with ps have "b = q @ a @ s" by simp
      with Cons.IH have "str_in a b" by blast
      then show ?thesis by simp
    qed
  qed
qed

text \<open>
  \<open>lower\<close> on ASCII text changes the letters A to Z, each to its small letter, and no
  other character; on any other text it is the interpreter's.
\<close>

lemma lower_ascii_letters:
  "map lower_ascii_char ''ABCDEFGHIJKLMNOPQRSTUVWXYZ'' = ''abcdefghijklmnopqrstuvwxyz''"
  by (simp add: lower_ascii_char_def)

lemma lower_ascii_other:
  "c \<notin> set ''ABCDEFGHIJKLMNOPQRSTUVWXYZ'' \<Longrightarrow> lower_ascii_char c = c"
  by (simp add: lower_ascii_char_def)

lemma lower_on_ascii: "list_all is_ascii s \<Longrightarrow> lower beyond s = map lower_ascii_char s"
  by (simp add: lower_def)

lemma lower_beyond_ascii: "\<not> list_all is_ascii s \<Longrightarrow> lower beyond s = beyond s"
  by (simp add: lower_def)

text \<open>Whatever the order of completion, the finished tasks are the submitted ones.\<close>

lemma mset_as_completed: "mset (as_completed order' pending) = mset pending"
proof (induction order' arbitrary: pending)
  case Nil
  then show ?case by simp
next
  case (Cons p order')
  show ?case
  proof (cases "pending = []")
    case True
    then show ?thesis by simp
  next
    case False
    define i where "i = p mod length pending"
    from False have i: "i < length pending" by (simp add: i_def)
    have "mset pending = mset (take i pending @ pending ! i # drop (Suc i) pending)"
      using id_take_nth_drop [OF i] by simp
    also have "\<dots> = add_mset (pending ! i) (mset (take i pending @ drop (Suc i) pending))"
      by simp
    finally show ?thesis
      using False Cons.IH [of "take i pending @ drop (Suc i) pending"]
      by (simp add: i_def Let_def)
  qed
qed

lemma as_completed_Nil: "as_completed order' [] = []"
  by (cases order') simp_all

lemma as_completed_single: "as_completed order' [x] = [x]"
  by (cases order') (simp_all add: as_completed_Nil)

lemma set_as_completed: "set (as_completed order' pending) = set pending"
  using mset_as_completed [of order' pending] by (metis set_mset_mset)

lemma length_as_completed: "length (as_completed order' pending) = length pending"
  using mset_as_completed [of order' pending] by (metis size_mset)

text \<open>And every order in which the tasks can finish is one the parameter can name.\<close>

lemma as_completed_any_order:
  "mset finished = mset pending \<Longrightarrow> \<exists>order'. as_completed order' pending = finished"
proof (induction finished arbitrary: pending)
  case Nil
  then have "as_completed [] pending = []" by simp
  then show ?case by blast
next
  case (Cons y finished)
  from Cons.prems have "y \<in> set pending"
    by (metis list.set_intros(1) set_mset_mset)
  then obtain i where i: "i < length pending" and y: "pending ! i = y"
    by (auto simp: in_set_conv_nth)
  let ?rest = "take i pending @ drop (Suc i) pending"
  have "mset pending = add_mset y (mset ?rest)"
    using id_take_nth_drop [OF i] y
    by (metis mset.simps(2) mset_append union_mset_add_mset_right)
  with Cons.prems have "mset finished = mset ?rest" by simp
  with Cons.IH obtain order' where "as_completed order' ?rest = finished" by blast
  with i y have "as_completed (i # order') pending = y # finished"
    by (auto simp: Let_def)
  then show ?case by blast
qed

text \<open>The loop over tasks that all returned: every result goes to one bucket.\<close>

lemma drain_returned: "drain r (map Inr vs) = (None, foldl categorize r vs)"
  by (induction vs arbitrary: r) auto

lemma all_returned:
  "\<forall>x \<in> set xs. \<exists>v. x = Inr v \<Longrightarrow> xs = map Inr (map projr xs)"
  by (induction xs) auto

lemma drain_raises_iff: "fst (drain r xs) = None \<longleftrightarrow> (\<forall>x \<in> set xs. \<exists>v. x = Inr v)"
proof (induction xs arbitrary: r)
  case Nil
  then show ?case by simp
next
  case (Cons x xs)
  then show ?case by (cases x) auto
qed

lemma found_categorize:
  "found (foldl categorize r vs) = found r @ filter (\<lambda>v. status v = ''found'') vs"
  by (induction vs arbitrary: r) (auto simp: categorize_def)

lemma not_found_categorize:
  "not_found (foldl categorize r vs) =
     not_found r @ filter (\<lambda>v. status v \<noteq> ''found'' \<and> status v = ''not_found'') vs"
  by (induction vs arbitrary: r) (auto simp: categorize_def)

lemma errors_categorize:
  "errors (foldl categorize r vs) =
     errors r @ filter (\<lambda>v. status v \<noteq> ''found'' \<and> status v \<noteq> ''not_found'') vs"
  by (induction vs arbitrary: r) (auto simp: categorize_def)

lemma length_tasks: "length (tasks w self username) = length (sites self)"
  by (simp add: tasks_def)

lemma three_way_split:
  "length (filter (\<lambda>v. status v = ''found'') vs)
     + length (filter (\<lambda>v. status v \<noteq> ''found'' \<and> status v = ''not_found'') vs)
     + length (filter (\<lambda>v. status v \<noteq> ''found'' \<and> status v \<noteq> ''not_found'') vs)
   = length vs"
  by (induction vs) auto

text \<open>
  A scan whose banner prints and in which no task raises returns; its buckets are the old
  ones followed by the results of the tasks, in the order of completion, each in the
  bucket of its status.
\<close>

lemma scan_returns:
  assumes "print_banner (interpreter w) username = None"
      and "\<forall>x \<in> set (tasks w self username). \<exists>v. x = Inr v"
  defines "vs \<equiv> map projr (as_completed (order w) (tasks w self username))"
  shows "scan_username w self username =
           (Inr (foldl categorize (results self) vs),
            self\<lparr>results := foldl categorize (results self) vs\<rparr>)"
proof -
  let ?done = "as_completed (order w) (tasks w self username)"
  from assms(2) have "\<forall>x \<in> set ?done. \<exists>v. x = Inr v"
    by (simp add: set_as_completed)
  then have "?done = map Inr vs"
    unfolding vs_def by (rule all_returned)
  with assms(1) show ?thesis
    by (simp add: scan_username_def drain_returned)
qed

lemma mset_finished:
  "mset (map projr (as_completed (order w) (tasks w self username)))
     = image_mset projr (mset (tasks w self username))"
  by (simp add: mset_as_completed)

text \<open>
  A scan whose banner the console rejects raises what the console raised, before any
  task exists, and leaves the checker as it was.
\<close>

lemma banner_rejected:
  "print_banner (interpreter w) username = Some e
     \<Longrightarrow> scan_username w self username = (Inl e, self)"
  by (simp add: scan_username_def)

text \<open>A scan returns exactly when its banner prints and no task raises.\<close>

lemma scan_returns_iff:
  "(\<exists>r. fst (scan_username w self username) = Inr r)
     \<longleftrightarrow> print_banner (interpreter w) username = None
         \<and> (\<forall>x \<in> set (tasks w self username). \<exists>v. x = Inr v)"
proof -
  let ?done = "as_completed (order w) (tasks w self username)"
  have "(\<exists>r. fst (scan_username w self username) = Inr r)
          \<longleftrightarrow> print_banner (interpreter w) username = None
              \<and> fst (drain (results self) ?done) = None"
    by (auto simp: scan_username_def split: prod.splits option.splits)
  then show ?thesis
    by (simp add: drain_raises_iff set_as_completed)
qed

section \<open>Examples\<close>

text \<open>
  Sites, transports and a checker for the concrete instances below. The examples use
  ASCII text, templates inside the modelled fragment of \<^verbatim>\<open>str.format\<close> and usernames
  without markup, so of the stand-in for the libraries only this is used: the banner
  prints.
\<close>

definition refuse_extended :: runtime where
  "refuse_extended =
     \<lparr>format_beyond = (\<lambda>template username. Inl ValueError),
      lower_beyond = (\<lambda>s. s),
      print_banner = (\<lambda>username. None)\<rparr>"

definition checker0 :: checker where
  "checker0 = UsernameChecker ''sites.json'' 10 (1 / 2)"

definition site_status :: pydict where
  "site_status =
     [''name'' \<mapsto> PyStr ''X'',
      ''url_template'' \<mapsto> PyStr ''https://x.test/{username}'',
      ''detection_type'' \<mapsto> PyStr ''status_code'']"

definition site_body :: pydict where
  "site_body =
     [''name'' \<mapsto> PyStr ''Z'',
      ''url_template'' \<mapsto> PyStr ''https://z.test/u/{username}'',
      ''detection_type'' \<mapsto> PyStr ''message_body'',
      ''error_message'' \<mapsto> PyStr ''user not found'']"

definition site_no_marker :: pydict where
  "site_no_marker =
     [''name'' \<mapsto> PyStr ''W'',
      ''url_template'' \<mapsto> PyStr ''https://w.test/{username}'',
      ''detection_type'' \<mapsto> PyStr ''message_body'']"

definition site_mismatched :: pydict where
  "site_mismatched =
     [''name'' \<mapsto> PyStr ''Y'',
      ''url_template'' \<mapsto> PyStr ''https://y.test/{user}'',
      ''detection_type'' \<mapsto> PyStr ''status_code'']"

definition site_no_scheme :: pydict where
  "site_no_scheme =
     [''name'' \<mapsto> PyStr ''V'',
      ''url_template'' \<mapsto> PyStr ''v.test/{username}'',
      ''detection_type'' \<mapsto> PyStr ''status_code'']"

text \<open>
  A site whose marker is not ASCII, \<^verbatim>\<open>\u00e9\<close> (in UTF-8 the bytes C3 A9), a body that
  ends in the capital letter \<^verbatim>\<open>\u00c9\<close> (C3 89), and a stand-in for the libraries that
  lowers this body as \<^verbatim>\<open>str.lower\<close> does.
\<close>

definition e_acute :: string where
  "e_acute = [CHR 0xC3, CHR 0xA9]"

definition cafe_capital :: string where
  "cafe_capital = ''caf'' @ [CHR 0xC3, CHR 0x89]"

definition lowers_cafe :: runtime where
  "lowers_cafe =
     refuse_extended\<lparr>lower_beyond := (\<lambda>s. if s = cafe_capital then ''caf'' @ e_acute else s)\<rparr>"

definition site_accent :: pydict where
  "site_accent =
     [''name'' \<mapsto> PyStr ''U'',
      ''url_template'' \<mapsto> PyStr ''https://u.test/{username}'',
      ''detection_type'' \<mapsto> PyStr ''message_body'',
      ''error_message'' \<mapsto> PyStr e_acute]"

definition respond :: "int \<Rightarrow> string \<Rightarrow> request \<Rightarrow> transport_outcome" where
  "respond status_code text req = Response status_code text"

definition fail_with :: "caught_exception \<Rightarrow> request \<Rightarrow> transport_outcome" where
  "fail_with e req = Raised e"

lemmas example_defs =
  refuse_extended_def checker0_def UsernameChecker_def site_status_def site_body_def
  site_no_marker_def site_mismatched_def site_no_scheme_def respond_def fail_with_def

lemmas format_defs = str_format_def get_field_def is_digit_def is_ascii_def prepend_def

section \<open>One probe\<close>

text \<open>
  When the three statements in front of the \<^verbatim>\<open>try\<close> go through, the call is the body
  of the \<^verbatim>\<open>try\<close> followed by the \<^verbatim>\<open>except\<close> clauses.
\<close>

lemma check_username_resolved:
  assumes "site' ''name'' = Some n"
      and "site' ''url_template'' = Some (PyStr t)"
      and "str_format (format_beyond rt) t username = Inr u"
      and "site' ''detection_type'' = Some d"
  shows "check_username rt draw self site' username client =
           (case try_body rt draw self site' d client
                   \<lparr>site = n, url = u, status = ''unknown'', error = None\<rparr> of
              (evs, result', None) \<Rightarrow> (evs, Inr result')
            | (evs, result', Some e) \<Rightarrow> (evs, Inr (handle_exception e result')))"
  using assms by (simp add: check_username_def dict_item_def format_template_def)

text \<open>The call returns a result exactly when those three statements go through.\<close>

lemma check_username_returns_iff:
  "(\<exists>v. snd (check_username rt draw self site' username client) = Inr v) \<longleftrightarrow>
   (\<exists>n t u d. site' ''name'' = Some n \<and> site' ''url_template'' = Some (PyStr t)
       \<and> str_format (format_beyond rt) t username = Inr u \<and> site' ''detection_type'' = Some d)"
  by (auto simp: check_username_def dict_item_def format_template_def
           split: option.splits sum.splits pyval.splits prod.splits)

text \<open>
  C5. For a site whose \<^verbatim>\<open>detection_type\<close> is \<^verbatim>\<open>status_code\<close>, a completed response is
  classified by its status code alone: 200 gives \<^verbatim>\<open>found\<close>, 404 gives \<^verbatim>\<open>not_found\<close>,
  and any other code gives \<^verbatim>\<open>unknown\<close> with the error \<^verbatim>\<open>Unexpected status: <code>\<close>;
  \<^verbatim>\<open>found\<close> and \<^verbatim>\<open>not_found\<close> carry no error.
\<close>

theorem status_code_detection:
  assumes "site' ''name'' = Some n"
      and "site' ''url_template'' = Some (PyStr t)"
      and "str_format (format_beyond rt) t username = Inr u"
      and "site' ''detection_type'' = Some (PyStr ''status_code'')"
      and "client \<lparr>req_url = u, user_agent = random_choice USER_AGENTS draw,
                   req_timeout = timeout self\<rparr> = Response code text"
  shows "snd (check_username rt draw self site' username client) =
           Inr \<lparr>site = n, url = u,
                status = (if code = 200 then ''found''
                          else if code = 404 then ''not_found'' else ''unknown''),
                error = (if code = 200 \<or> code = 404 then None
                         else Some (''Unexpected status: '' @ str_int code))\<rparr>"
  using assms(5)
  by (simp add: check_username_resolved [OF assms(1-4)] try_body_def detect_def)

theorem status_code_detection_witness:
  "snd (check_username refuse_extended 3 checker0 site_status ''alice'' (respond 500 ''oops'')) =
     Inr \<lparr>site = PyStr ''X'', url = ''https://x.test/alice'', status = ''unknown'',
          error = Some ''Unexpected status: 500''\<rparr>"
proof -
  have name: "site_status ''name'' = Some (PyStr ''X'')"
    and template: "site_status ''url_template'' = Some (PyStr ''https://x.test/{username}'')"
    and kind: "site_status ''detection_type'' = Some (PyStr ''status_code'')"
    by (simp_all add: site_status_def)
  have resolved: "str_format (format_beyond refuse_extended) ''https://x.test/{username}'' ''alice''
                    = Inr ''https://x.test/alice''"
    by (simp add: format_defs)
  have answer: "respond 500 ''oops''
      \<lparr>req_url = ''https://x.test/alice'', user_agent = random_choice USER_AGENTS 3,
       req_timeout = timeout checker0\<rparr> = Response 500 ''oops''"
    by (simp add: respond_def)
  from status_code_detection
         [where site' = site_status and client = "respond 500 ''oops''" and draw = 3
            and self = checker0, OF name template resolved kind answer]
  show ?thesis by (simp add: str_int_def)
qed

text \<open>
  C6. For a site whose \<^verbatim>\<open>detection_type\<close> is \<^verbatim>\<open>message_body\<close> and whose marker
  (\<^verbatim>\<open>error_message\<close>, the empty string when the key is absent) is a string, a completed
  response is classified so: 404 gives \<^verbatim>\<open>not_found\<close> whatever the body; 200 gives
  \<^verbatim>\<open>not_found\<close> if the marker is not empty and the lowercased body contains the
  lowercased marker, and \<^verbatim>\<open>found\<close> otherwise; any other code gives \<^verbatim>\<open>unknown\<close> with
  the error \<^verbatim>\<open>Status: <code>\<close>.
\<close>

theorem message_body_detection:
  assumes "site' ''name'' = Some n"
      and "site' ''url_template'' = Some (PyStr t)"
      and "str_format (format_beyond rt) t username = Inr u"
      and "site' ''detection_type'' = Some (PyStr ''message_body'')"
      and "dict_get site' ''error_message'' (PyStr []) = PyStr marker"
      and "client \<lparr>req_url = u, user_agent = random_choice USER_AGENTS draw,
                   req_timeout = timeout self\<rparr> = Response code text"
  shows "snd (check_username rt draw self site' username client) =
           Inr \<lparr>site = n, url = u,
                status = (if code = 404 then ''not_found''
                          else if code = 200 then
                            (if marker \<noteq> [] \<and> (\<exists>p s. lower (lower_beyond rt) text = p @ lower (lower_beyond rt) marker @ s)
                             then ''not_found'' else ''found'')
                          else ''unknown''),
                error = (if code = 200 \<or> code = 404 then None
                         else Some (''Status: '' @ str_int code))\<rparr>"
  using assms(5,6)
  by (simp add: check_username_resolved [OF assms(1-4)] try_body_def detect_def
        marker_in_body_def str_in_iff)

theorem message_body_detection_witness:
  "snd (check_username refuse_extended 1 checker0 site_body ''johndoe''
          (respond 200 ''Sorry: User Not Found'')) =
     Inr \<lparr>site = PyStr ''Z'', url = ''https://z.test/u/johndoe'', status = ''not_found'',
          error = None\<rparr>
   \<and> snd (check_username refuse_extended 1 checker0 site_body ''johndoe''
          (respond 200 ''Welcome johndoe'')) =
     Inr \<lparr>site = PyStr ''Z'', url = ''https://z.test/u/johndoe'', status = ''found'',
          error = None\<rparr>
   \<and> snd (check_username refuse_extended 1 checker0 site_body ''johndoe''
          (respond 404 ''Welcome johndoe'')) =
     Inr \<lparr>site = PyStr ''Z'', url = ''https://z.test/u/johndoe'', status = ''not_found'',
          error = None\<rparr>
   \<and> snd (check_username lowers_cafe 1 checker0 site_accent ''johndoe''
          (respond 200 cafe_capital)) =
     Inr \<lparr>site = PyStr ''U'', url = ''https://u.test/johndoe'', status = ''not_found'',
          error = None\<rparr>"
proof -
  have name: "site_body ''name'' = Some (PyStr ''Z'')"
    and template: "site_body ''url_template'' = Some (PyStr ''https://z.test/u/{username}'')"
    and kind: "site_body ''detection_type'' = Some (PyStr ''message_body'')"
    and marker: "dict_get site_body ''error_message'' (PyStr []) = PyStr ''user not found''"
    by (simp_all add: site_body_def dict_get_def)
  have resolved: "str_format (format_beyond refuse_extended) ''https://z.test/u/{username}'' ''johndoe''
                    = Inr ''https://z.test/u/johndoe''"
    by (simp add: format_defs)
  have answer: "respond code body
      \<lparr>req_url = ''https://z.test/u/johndoe'', user_agent = random_choice USER_AGENTS 1,
       req_timeout = timeout checker0\<rparr> = Response code body" for code body
    by (simp add: respond_def)
  have "str_in (lower (lower_beyond refuse_extended) ''user not found'')
          (lower (lower_beyond refuse_extended) ''Sorry: User Not Found'')"
    by (simp add: lower_def lower_ascii_char_def is_ascii_def)
  then have occurs: "\<exists>p s. lower (lower_beyond refuse_extended) ''Sorry: User Not Found''
                       = p @ lower (lower_beyond refuse_extended) ''user not found'' @ s"
    by (simp only: str_in_iff)
  have "\<not> str_in (lower (lower_beyond refuse_extended) ''user not found'')
            (lower (lower_beyond refuse_extended) ''Welcome johndoe'')"
    by (simp add: lower_def lower_ascii_char_def is_ascii_def)
  then have absent: "\<not> (\<exists>p s. lower (lower_beyond refuse_extended) ''Welcome johndoe''
                       = p @ lower (lower_beyond refuse_extended) ''user not found'' @ s)"
    unfolding str_in_iff .
  have name': "site_accent ''name'' = Some (PyStr ''U'')"
    and template': "site_accent ''url_template'' = Some (PyStr ''https://u.test/{username}'')"
    and kind': "site_accent ''detection_type'' = Some (PyStr ''message_body'')"
    and marker': "dict_get site_accent ''error_message'' (PyStr []) = PyStr e_acute"
    by (simp_all add: site_accent_def dict_get_def)
  have resolved': "str_format (format_beyond lowers_cafe) ''https://u.test/{username}'' ''johndoe''
                    = Inr ''https://u.test/johndoe''"
    by (simp add: format_defs)
  have answer': "respond 200 cafe_capital
      \<lparr>req_url = ''https://u.test/johndoe'', user_agent = random_choice USER_AGENTS 1,
       req_timeout = timeout checker0\<rparr> = Response 200 cafe_capital"
    by (simp add: respond_def)
  have "str_in (lower (lower_beyond lowers_cafe) e_acute)
          (lower (lower_beyond lowers_cafe) cafe_capital)"
    by (simp add: lower_def is_ascii_def lowers_cafe_def refuse_extended_def
          e_acute_def cafe_capital_def)
  then have occurs': "\<exists>p s. lower (lower_beyond lowers_cafe) cafe_capital
                        = p @ lower (lower_beyond lowers_cafe) e_acute @ s"
    by (simp only: str_in_iff)
  have accent: "e_acute \<noteq> []"
    by (simp add: e_acute_def)
  from message_body_detection
         [where site' = site_body and client = "respond 200 ''Sorry: User Not Found''"
            and draw = 1 and self = checker0, OF name template resolved kind marker answer]
       message_body_detection
         [where site' = site_body and client = "respond 200 ''Welcome johndoe''"
            and draw = 1 and self = checker0, OF name template resolved kind marker answer]
       message_body_detection
         [where site' = site_body and client = "respond 404 ''Welcome johndoe''"
            and draw = 1 and self = checker0, OF name template resolved kind marker answer]
       message_body_detection
         [where site' = site_accent and client = "respond 200 cafe_capital"
            and draw = 1 and self = checker0,
          OF name' template' resolved' kind' marker' answer']
       occurs absent occurs' accent
  show ?thesis by simp
qed

text \<open>
  C10. A \<^verbatim>\<open>message_body\<close> site without the key \<^verbatim>\<open>error_message\<close> does not make the
  probe fail: the marker is the empty string, the body is not looked at, every 200 is
  \<^verbatim>\<open>found\<close> and 404 is \<^verbatim>\<open>not_found\<close>, both without error; the sleep follows.
\<close>

theorem missing_marker_detection:
  assumes "site' ''name'' = Some n"
      and "site' ''url_template'' = Some (PyStr t)"
      and "str_format (format_beyond rt) t username = Inr u"
      and "site' ''detection_type'' = Some (PyStr ''message_body'')"
      and "site' ''error_message'' = None"
      and "client \<lparr>req_url = u, user_agent = random_choice USER_AGENTS draw,
                   req_timeout = timeout self\<rparr> = Response code text"
      and "code = 200 \<or> code = 404"
  shows "check_username rt draw self site' username client =
           ([Get \<lparr>req_url = u, user_agent = random_choice USER_AGENTS draw,
                   req_timeout = timeout self\<rparr>,
             Sleep (rate_limit self)],
            Inr \<lparr>site = n, url = u,
                 status = (if code = 200 then ''found'' else ''not_found''),
                 error = None\<rparr>)"
  using assms(5-7)
  by (auto simp: check_username_resolved [OF assms(1-4)] try_body_def detect_def
        marker_in_body_def dict_get_def)

theorem missing_marker_detection_witness:
  "check_username refuse_extended 0 checker0 site_no_marker ''alice''
       (respond 200 ''user not found'') =
     ([Get \<lparr>req_url = ''https://w.test/alice'', user_agent = random_choice USER_AGENTS 0,
             req_timeout = 10\<rparr>,
       Sleep (1 / 2)],
      Inr \<lparr>site = PyStr ''W'', url = ''https://w.test/alice'', status = ''found'',
           error = None\<rparr>)"
proof -
  have name: "site_no_marker ''name'' = Some (PyStr ''W'')"
    and template: "site_no_marker ''url_template'' = Some (PyStr ''https://w.test/{username}'')"
    and kind: "site_no_marker ''detection_type'' = Some (PyStr ''message_body'')"
    and absent: "site_no_marker ''error_message'' = None"
    by (simp_all add: site_no_marker_def)
  have resolved: "str_format (format_beyond refuse_extended) ''https://w.test/{username}'' ''alice''
                    = Inr ''https://w.test/alice''"
    by (simp add: format_defs)
  have answer: "respond 200 ''user not found''
      \<lparr>req_url = ''https://w.test/alice'', user_agent = random_choice USER_AGENTS 0,
       req_timeout = timeout checker0\<rparr> = Response 200 ''user not found''"
    by (simp add: respond_def)
  have code: "(200::int) = 200 \<or> (200::int) = 404"
    by simp
  from missing_marker_detection
         [where site' = site_no_marker and client = "respond 200 ''user not found''"
            and draw = 0 and self = checker0,
          OF name template resolved kind absent answer code]
  show ?thesis by (simp add: checker0_def UsernameChecker_def)
qed

text \<open>
  When the request raises, the probe returns a result with status \<^verbatim>\<open>error\<close>: the
  error is \<^verbatim>\<open>Timeout\<close> for a \<^verbatim>\<open>TimeoutException\<close>, \<^verbatim>\<open>Connection failed\<close> for a
  \<^verbatim>\<open>ConnectError\<close>, \<^verbatim>\<open>SSL/TLS error\<close> for an \<^verbatim>\<open>UnsupportedProtocol\<close>, and the text
  of the exception for any other one, whatever the detection type of the site.
\<close>

lemma transport_failure_verdict:
  assumes "site' ''name'' = Some n"
      and "site' ''url_template'' = Some (PyStr t)"
      and "str_format (format_beyond rt) t username = Inr u"
      and "site' ''detection_type'' = Some d"
      and "client \<lparr>req_url = u, user_agent = random_choice USER_AGENTS draw,
                   req_timeout = timeout self\<rparr> = Raised e"
  shows "snd (check_username rt draw self site' username client) =
           Inr \<lparr>site = n, url = u, status = ''error'',
                error = Some (case e of
                                TimeoutException m \<Rightarrow> ''Timeout''
                              | ConnectError m \<Rightarrow> ''Connection failed''
                              | UnsupportedProtocol m \<Rightarrow> ''SSL/TLS error''
                              | OtherException m \<Rightarrow> m)\<rparr>"
  using assms(5)
  by (cases e) (simp_all add: check_username_resolved [OF assms(1-4)] try_body_def)

lemma unsupported_protocol_probe:
  "snd (check_username refuse_extended 2 checker0 site_body ''alice''
          (fail_with (UnsupportedProtocol ''no scheme''))) =
     Inr \<lparr>site = PyStr ''Z'', url = ''https://z.test/u/alice'', status = ''error'',
          error = Some ''SSL/TLS error''\<rparr>"
proof -
  have name: "site_body ''name'' = Some (PyStr ''Z'')"
    and template: "site_body ''url_template'' = Some (PyStr ''https://z.test/u/{username}'')"
    and kind: "site_body ''detection_type'' = Some (PyStr ''message_body'')"
    by (simp_all add: site_body_def)
  have resolved: "str_format (format_beyond refuse_extended) ''https://z.test/u/{username}'' ''alice''
                    = Inr ''https://z.test/u/alice''"
    by (simp add: format_defs)
  have answer: "fail_with (UnsupportedProtocol ''no scheme'')
      \<lparr>req_url = ''https://z.test/u/alice'', user_agent = random_choice USER_AGENTS 2,
       req_timeout = timeout checker0\<rparr> = Raised (UnsupportedProtocol ''no scheme'')"
    by (simp add: fail_with_def)
  from transport_failure_verdict
         [where site' = site_body and client = "fail_with (UnsupportedProtocol ''no scheme'')"
            and draw = 2 and self = checker0, OF name template resolved kind answer]
  show ?thesis by simp
qed

text \<open>
  C4, at a TLS handshake that fails. A timeout and a connection that cannot be
  established are reported as the claim says. A failed TLS negotiation is a
  \<^verbatim>\<open>ConnectError\<close> to httpx, so the probe reports it as \<^verbatim>\<open>Connection failed\<close>; the
  \<^verbatim>\<open>except\<close> clause that answers \<^verbatim>\<open>SSL/TLS error\<close> catches \<^verbatim>\<open>UnsupportedProtocol\<close>,
  which is raised for a URL without a scheme, where no TLS is involved.
\<close>

theorem tls_failure_reported_as_connection_failure:
  "snd (check_username refuse_extended 0 checker0 site_status ''alice''
          (fail_with (httpx_raises (TlsNegotiationFailed ''certificate verify failed'')))) =
     Inr \<lparr>site = PyStr ''X'', url = ''https://x.test/alice'', status = ''error'',
          error = Some ''Connection failed''\<rparr>
   \<and> snd (check_username refuse_extended 0 checker0 site_no_scheme ''alice''
          (fail_with (httpx_raises (SchemeNotSupported ''URL without http or https'')))) =
     Inr \<lparr>site = PyStr ''V'', url = ''v.test/alice'', status = ''error'',
          error = Some ''SSL/TLS error''\<rparr>
   \<and> snd (check_username refuse_extended 0 checker0 site_status ''alice''
          (fail_with (httpx_raises (TimedOut ''timed out'')))) =
     Inr \<lparr>site = PyStr ''X'', url = ''https://x.test/alice'', status = ''error'',
          error = Some ''Timeout''\<rparr>
   \<and> snd (check_username refuse_extended 0 checker0 site_status ''alice''
          (fail_with (httpx_raises (ConnectionNotEstablished ''connection refused'')))) =
     Inr \<lparr>site = PyStr ''X'', url = ''https://x.test/alice'', status = ''error'',
          error = Some ''Connection failed''\<rparr>"
  by (simp add: check_username_def dict_item_def format_template_def
        format_defs try_body_def example_defs)

text \<open>What the body of the \<^verbatim>\<open>try\<close> and the \<^verbatim>\<open>except\<close> clauses leave in the result.\<close>

lemma handle_exception_fields:
  "status (handle_exception e result) = ''error''"
  "error (handle_exception e result) \<noteq> None"
  "site (handle_exception e result) = site result"
  "url (handle_exception e result) = url result"
  by (cases e; simp)+

lemma detect_fields:
  assumes "detect rt site' d code text result = (result', raised)"
  shows "site result' = site result" and "url result' = url result"
  using assms
  by (auto simp: detect_def Let_def split: if_splits sum.splits bool.splits)

lemma detect_status:
  assumes "detect rt site' d code text result = (result', None)"
      and "status result = ''unknown''" and "error result = None"
  shows "status result' \<in> {''found'', ''not_found'', ''unknown''}"
    and "d = PyStr ''status_code'' \<or> d = PyStr ''message_body''
           \<Longrightarrow> error result' \<noteq> None \<longleftrightarrow> status result' = ''unknown''"
  using assms
  by (auto simp: detect_def Let_def split: if_splits sum.splits bool.splits)

text \<open>
  The events of a call that returns: the request, and the sleep unless an exception was
  caught.
\<close>

lemma check_username_cases:
  assumes "check_username rt draw self site' username client = (evs, Inr v)"
  obtains (slept) d
    where "site' ''detection_type'' = Some d"
      and "evs = [Get \<lparr>req_url = url v, user_agent = random_choice USER_AGENTS draw,
                        req_timeout = timeout self\<rparr>, Sleep (rate_limit self)]"
      and "status v \<in> {''found'', ''not_found'', ''unknown''}"
      and "d = PyStr ''status_code'' \<or> d = PyStr ''message_body''
             \<Longrightarrow> error v \<noteq> None \<longleftrightarrow> status v = ''unknown''"
  | (caught)
    "evs = [Get \<lparr>req_url = url v, user_agent = random_choice USER_AGENTS draw,
                  req_timeout = timeout self\<rparr>]"
    "status v = ''error''" "error v \<noteq> None"
proof -
  from assms have "\<exists>v. snd (check_username rt draw self site' username client) = Inr v"
    by simp
  then obtain n t u d where site:
    "site' ''name'' = Some n" "site' ''url_template'' = Some (PyStr t)"
    "str_format (format_beyond rt) t username = Inr u" "site' ''detection_type'' = Some d"
    unfolding check_username_returns_iff by blast
  let ?r0 = "\<lparr>site = n, url = u, status = ''unknown'', error = None\<rparr>"
  let ?req = "\<lparr>req_url = u, user_agent = random_choice USER_AGENTS draw,
               req_timeout = timeout self\<rparr>"
  note call = assms [unfolded check_username_resolved [OF site]]
  show thesis
  proof (cases "client ?req")
    case (Raised e)
    with call have "evs = [Get ?req]" and v: "v = handle_exception e ?r0"
      by (simp_all add: try_body_def)
    then show thesis
      using caught by (simp add: handle_exception_fields)
  next
    case (Response code body)
    obtain r' raised where det: "detect rt site' d code body ?r0 = (r', raised)"
      by (cases "detect rt site' d code body ?r0")
    have u: "url r' = u"
      using detect_fields(2) [OF det] by simp
    show thesis
    proof (cases raised)
      case None
      with call Response det have "evs = [Get ?req, Sleep (rate_limit self)]" and "v = r'"
        by (simp_all add: try_body_def)
      moreover note detect_status [OF det [unfolded None]]
      ultimately show thesis
        using slept [of d] site(4) u by simp
    next
      case (Some e)
      with call Response det have "evs = [Get ?req]" and "v = handle_exception e r'"
        by (simp_all add: try_body_def)
      then show thesis
        using caught u by (simp add: handle_exception_fields)
    qed
  qed
qed

text \<open>
  C8. In every result that a probe of a \<^verbatim>\<open>status_code\<close> or \<^verbatim>\<open>message_body\<close> site
  returns, the status is one of the four and the error is present exactly when the
  status is \<^verbatim>\<open>unknown\<close> or \<^verbatim>\<open>error\<close>.
\<close>

theorem error_present_iff:
  assumes "check_username rt draw self site' username client = (evs, Inr v)"
      and "site' ''detection_type'' = Some (PyStr ''status_code'')
             \<or> site' ''detection_type'' = Some (PyStr ''message_body'')"
  shows "(error v \<noteq> None \<longleftrightarrow> status v = ''unknown'' \<or> status v = ''error'')
           \<and> status v \<in> {''found'', ''not_found'', ''unknown'', ''error''}"
  using assms(1)
proof (cases rule: check_username_cases)
  case (slept d)
  with assms(2) have "d = PyStr ''status_code'' \<or> d = PyStr ''message_body''"
    by auto
  with slept show ?thesis by auto
next
  case caught
  then show ?thesis by simp
qed

lemma unavailable_probe:
  "check_username refuse_extended 4 checker0 site_body ''bob'' (respond 503 []) =
     ([Get \<lparr>req_url = ''https://z.test/u/bob'', user_agent = random_choice USER_AGENTS 4,
             req_timeout = 10\<rparr>, Sleep (1 / 2)],
      Inr \<lparr>site = PyStr ''Z'', url = ''https://z.test/u/bob'', status = ''unknown'',
           error = Some ''Status: 503''\<rparr>)"
  by (simp add: check_username_def dict_item_def dict_get_def format_template_def
        format_defs try_body_def detect_def str_int_def example_defs)

theorem error_present_iff_witness:
  "snd (check_username refuse_extended 4 checker0 site_body ''bob'' (respond 503 [])) =
     Inr \<lparr>site = PyStr ''Z'', url = ''https://z.test/u/bob'', status = ''unknown'',
          error = Some ''Status: 503''\<rparr>
   \<and> (error \<lparr>site = PyStr ''Z'', url = ''https://z.test/u/bob'', status = ''unknown'',
                error = Some ''Status: 503''\<rparr> \<noteq> None)
       = (status \<lparr>site = PyStr ''Z'', url = ''https://z.test/u/bob'', status = ''unknown'',
                  error = Some ''Status: 503''\<rparr> \<in> {''unknown'', ''error''})"
proof -
  have kind: "site_body ''detection_type'' = Some (PyStr ''status_code'')
                \<or> site_body ''detection_type'' = Some (PyStr ''message_body'')"
    by (simp add: site_body_def)
  from error_present_iff [OF unavailable_probe kind] unavailable_probe
  show ?thesis by simp
qed

text \<open>
  C3, as the code has it. The sleep is the last statement inside the \<^verbatim>\<open>try\<close>: a probe
  that returns has made one request, and it has slept for \<^verbatim>\<open>rate_limit\<close> after it
  exactly when no exception was caught, that is when the status of its result is not
  \<^verbatim>\<open>error\<close>. After a timeout, a failed connection, an unsupported protocol or any other
  exception it returns without sleeping.
\<close>

theorem sleep_unless_caught:
  assumes "check_username rt draw self site' username client = (evs, Inr v)"
  shows "evs =
           (if status v = ''error''
            then [Get \<lparr>req_url = url v, user_agent = random_choice USER_AGENTS draw,
                        req_timeout = timeout self\<rparr>]
            else [Get \<lparr>req_url = url v, user_agent = random_choice USER_AGENTS draw,
                        req_timeout = timeout self\<rparr>,
                  Sleep (rate_limit self)])"
  using assms
proof (cases rule: check_username_cases)
  case (slept d)
  then show ?thesis by auto
next
  case caught
  then show ?thesis by simp
qed

lemma timeout_probe:
  "check_username refuse_extended 0 checker0 site_status ''alice''
       (fail_with (TimeoutException ''timed out'')) =
     ([Get \<lparr>req_url = ''https://x.test/alice'', user_agent = random_choice USER_AGENTS 0,
             req_timeout = 10\<rparr>],
      Inr \<lparr>site = PyStr ''X'', url = ''https://x.test/alice'', status = ''error'',
           error = Some ''Timeout''\<rparr>)"
  by (simp add: check_username_def dict_item_def format_template_def
        format_defs try_body_def example_defs)

theorem sleep_unless_caught_witness:
  "fst (check_username refuse_extended 0 checker0 site_status ''alice''
          (fail_with (TimeoutException ''timed out''))) =
     [Get \<lparr>req_url = ''https://x.test/alice'', user_agent = random_choice USER_AGENTS 0,
            req_timeout = timeout checker0\<rparr>]"
  using sleep_unless_caught [OF timeout_probe] timeout_probe by simp

text \<open>
  The claim as the specification words it, that the probe sleeps after a classified
  failure too, fails on a request that times out: the probe returns the \<^verbatim>\<open>Timeout\<close>
  result and no sleep is among its events.
\<close>

theorem no_sleep_after_timeout:
  "snd (check_username refuse_extended 0 checker0 site_status ''alice''
          (fail_with (TimeoutException ''timed out''))) =
     Inr \<lparr>site = PyStr ''X'', url = ''https://x.test/alice'', status = ''error'',
          error = Some ''Timeout''\<rparr>
   \<and> Sleep (rate_limit checker0)
       \<notin> set (fst (check_username refuse_extended 0 checker0 site_status ''alice''
                      (fail_with (TimeoutException ''timed out''))))"
  by (simp add: timeout_probe)

text \<open>
  C2, at a site whose template names a field other than \<^verbatim>\<open>username\<close>. The template is
  formatted in front of the \<^verbatim>\<open>try\<close>, so the KeyError of \<^verbatim>\<open>str.format\<close> leaves
  \<^verbatim>\<open>check_username\<close> instead of becoming a result with status \<^verbatim>\<open>error\<close>, and the scan
  that awaits the task raises it in turn: whatever the world, the scan of this site
  raises, and where the banner prints it raises this KeyError.
\<close>

theorem mismatched_template_raises:
  "check_username rt draw self site_mismatched ''alice'' client = ([], Inl (KeyError ''user''))
   \<and> scan_username w (checker0\<lparr>sites := [site_mismatched]\<rparr>) ''alice'' =
       (case print_banner (interpreter w) ''alice'' of
          None \<Rightarrow> (Inl (KeyError ''user''), checker0\<lparr>sites := [site_mismatched]\<rparr>)
        | Some e \<Rightarrow> (Inl e, checker0\<lparr>sites := [site_mismatched]\<rparr>))
   \<and> scan_username (w\<lparr>interpreter := refuse_extended\<rparr>)
         (checker0\<lparr>sites := [site_mismatched]\<rparr>) ''alice'' =
       (Inl (KeyError ''user''), checker0\<lparr>sites := [site_mismatched]\<rparr>)"
proof -
  have probe: "check_username rt draw self site_mismatched ''alice'' client =
                 ([], Inl (KeyError ''user''))" for rt draw self client
    by (simp add: check_username_def dict_item_def format_template_def format_defs
          site_mismatched_def)
  have scan: "scan_username w (checker0\<lparr>sites := [site_mismatched]\<rparr>) ''alice'' =
       (case print_banner (interpreter w) ''alice'' of
          None \<Rightarrow> (Inl (KeyError ''user''), checker0\<lparr>sites := [site_mismatched]\<rparr>)
        | Some e \<Rightarrow> (Inl e, checker0\<lparr>sites := [site_mismatched]\<rparr>))" for w
    by (simp add: scan_username_def tasks_def enumerate_eq_zip probe as_completed_single
          checker0_def UsernameChecker_def split: option.splits)
  have "scan_username (w\<lparr>interpreter := refuse_extended\<rparr>)
          (checker0\<lparr>sites := [site_mismatched]\<rparr>) ''alice'' =
        (Inl (KeyError ''user''), checker0\<lparr>sites := [site_mismatched]\<rparr>)"
    by (simp add: scan refuse_extended_def)
  with probe scan show ?thesis
    by blast
qed

section \<open>One scan\<close>

text \<open>
  A site resolves when it has the three keys read in front of the \<^verbatim>\<open>try\<close> and its
  template is a string that \<^verbatim>\<open>format\<close> accepts; \<open>bucket_total\<close> is
  \<open>|found| + |not_found| + |errors|\<close>.
\<close>

definition resolves :: "runtime \<Rightarrow> string \<Rightarrow> pydict \<Rightarrow> bool" where
  "resolves rt username site' =
     (case (site' ''name'', site' ''url_template'', site' ''detection_type'') of
        (Some n, Some (PyStr t), Some d) \<Rightarrow>
          (case str_format (format_beyond rt) t username of Inl e \<Rightarrow> False | Inr u \<Rightarrow> True)
      | other \<Rightarrow> False)"

definition bucket_total :: "result_set \<Rightarrow> nat" where
  "bucket_total r = length (found r) + length (not_found r) + length (errors r)"

definition world_ok :: world where
  "world_ok = \<lparr>interpreter = refuse_extended, draws = (\<lambda>i. i),
               network = (\<lambda>i. respond 200 ''Welcome''), order = [1]\<rparr>"

definition world_down :: world where
  "world_down = \<lparr>interpreter = refuse_extended, draws = (\<lambda>i. 0),
                 network = (\<lambda>i. fail_with (ConnectError ''unreachable'')), order = []\<rparr>"

definition scanned_once :: checker where
  "scanned_once = snd (scan_username world_ok (checker0\<lparr>sites := [site_status]\<rparr>) ''alice'')"

definition found_alice :: verdict where
  "found_alice = \<lparr>site = PyStr ''X'', url = ''https://x.test/alice'', status = ''found'',
                   error = None\<rparr>"

lemma resolves_iff:
  "resolves rt username site' \<longleftrightarrow>
     (\<exists>v. snd (check_username rt draw self site' username client) = Inr v)"
  unfolding check_username_returns_iff
  by (auto simp: resolves_def split: option.splits pyval.splits sum.splits)

lemma tasks_return:
  "(\<forall>x \<in> set (tasks w self username). \<exists>v. x = Inr v)
     \<longleftrightarrow> (\<forall>site' \<in> set (sites self). resolves (interpreter w) username site')"
proof
  assume returned: "\<forall>x \<in> set (tasks w self username). \<exists>v. x = Inr v"
  show "\<forall>site' \<in> set (sites self). resolves (interpreter w) username site'"
  proof
    fix site' assume "site' \<in> set (sites self)"
    then obtain i where "i < length (sites self)" and "sites self ! i = site'"
      by (auto simp: in_set_conv_nth)
    then have "(i, site') \<in> set (enumerate 0 (sites self))"
      by (auto simp: in_set_enumerate_eq)
    then have "snd (check_username (interpreter w) (draws w i) self site' username (network w i))
                 \<in> set (tasks w self username)"
      by (force simp: tasks_def)
    with returned show "resolves (interpreter w) username site'"
      by (auto simp: resolves_iff [of _ _ _ "draws w i" self "network w i"])
  qed
next
  assume "\<forall>site' \<in> set (sites self). resolves (interpreter w) username site'"
  then show "\<forall>x \<in> set (tasks w self username). \<exists>v. x = Inr v"
    by (auto simp: tasks_def in_set_enumerate_eq resolves_iff [symmetric])
qed

lemma bucket_total_categorize:
  "bucket_total (foldl categorize r vs) = bucket_total r + length vs"
  using three_way_split [of vs]
  by (simp add: bucket_total_def found_categorize not_found_categorize errors_categorize)

text \<open>
  C1, as the code has it. \<^verbatim>\<open>self.results\<close> is created once, in \<^verbatim>\<open>__init__\<close>, and a scan
  appends to it. In every scan whose banner prints and whose sites all resolve, each
  site yields exactly one result and each result is appended to exactly one bucket (the
  one its status names),
  whatever the order of completion and whatever the transport does, also when every
  request fails: the scan returns, each bucket is the old one plus the results of that
  status, and the three together grow by exactly \<open>|sites|\<close>. Hence
  \<open>|found| + |not_found| + |errors| = |sites|\<close> for the first scan of a checker.
\<close>

theorem scan_partition:
  assumes "print_banner (interpreter w) username = None"
      and "\<forall>site' \<in> set (sites self). resolves (interpreter w) username site'"
  shows "\<exists>r. scan_username w self username = (Inr r, self\<lparr>results := r\<rparr>)
           \<and> mset (found r) = mset (found (results self))
                 + filter_mset (\<lambda>v. status v = ''found'')
                     (image_mset projr (mset (tasks w self username)))
           \<and> mset (not_found r) = mset (not_found (results self))
                 + filter_mset (\<lambda>v. status v \<noteq> ''found'' \<and> status v = ''not_found'')
                     (image_mset projr (mset (tasks w self username)))
           \<and> mset (errors r) = mset (errors (results self))
                 + filter_mset (\<lambda>v. status v \<noteq> ''found'' \<and> status v \<noteq> ''not_found'')
                     (image_mset projr (mset (tasks w self username)))
           \<and> bucket_total r = bucket_total (results self) + length (sites self)
           \<and> (results self = \<lparr>found = [], not_found = [], errors = []\<rparr>
                 \<longrightarrow> bucket_total r = length (sites self))"
proof -
  define vs where "vs = map projr (as_completed (order w) (tasks w self username))"
  define r where "r = foldl categorize (results self) vs"
  from assms(2) have returned: "\<forall>x \<in> set (tasks w self username). \<exists>v. x = Inr v"
    by (simp add: tasks_return)
  have scan: "scan_username w self username = (Inr r, self\<lparr>results := r\<rparr>)"
    using scan_returns [OF assms(1) returned] by (simp add: r_def vs_def)
  have vs: "mset vs = image_mset projr (mset (tasks w self username))"
    unfolding vs_def by (rule mset_finished)
  have "length vs = length (sites self)"
    by (simp add: vs_def length_as_completed length_tasks)
  then have total: "bucket_total r = bucket_total (results self) + length (sites self)"
    by (simp add: r_def bucket_total_categorize)
  have "mset (found r) = mset (found (results self))
          + filter_mset (\<lambda>v. status v = ''found'') (mset vs)"
    by (simp add: r_def found_categorize)
  moreover have "mset (not_found r) = mset (not_found (results self))
          + filter_mset (\<lambda>v. status v \<noteq> ''found'' \<and> status v = ''not_found'') (mset vs)"
    by (simp add: r_def not_found_categorize)
  moreover have "mset (errors r) = mset (errors (results self))
          + filter_mset (\<lambda>v. status v \<noteq> ''found'' \<and> status v \<noteq> ''not_found'') (mset vs)"
    by (simp add: r_def errors_categorize)
  moreover from total have "results self = \<lparr>found = [], not_found = [], errors = []\<rparr>
          \<longrightarrow> bucket_total r = length (sites self)"
    by (auto simp: bucket_total_def)
  ultimately show ?thesis
    using scan total unfolding vs by blast
qed

lemma examples_resolve:
  "resolves refuse_extended ''alice'' site_status"
  "resolves refuse_extended ''alice'' site_body"
  "resolves refuse_extended ''alice'' site_no_marker"
  by (simp_all add: resolves_def format_defs site_status_def site_body_def site_no_marker_def)

theorem scan_partition_witness:
  "isl (fst (scan_username world_down (checker0\<lparr>sites := [site_status, site_body]\<rparr>) ''alice'')) = False
   \<and> bucket_total (projr (fst (scan_username world_down
          (checker0\<lparr>sites := [site_status, site_body]\<rparr>) ''alice''))) = 2"
proof -
  have sites: "\<forall>site' \<in> set (sites (checker0\<lparr>sites := [site_status, site_body]\<rparr>)).
                 resolves (interpreter world_down) ''alice'' site'"
    by (simp add: world_down_def examples_resolve)
  have banner: "print_banner (interpreter world_down) ''alice'' = None"
    by (simp add: world_down_def refuse_extended_def)
  have new: "results (checker0\<lparr>sites := [site_status, site_body]\<rparr>)
               = \<lparr>found = [], not_found = [], errors = []\<rparr>"
    by (simp add: checker0_def UsernameChecker_def)
  from scan_partition [OF banner sites] new show ?thesis
    by auto
qed

text \<open>
  The claim as the specification words it, for every scan, fails on the second scan of
  a checker: its buckets still hold the result of the first scan, so one site is scanned
  and two results are returned.
\<close>

lemma first_scan:
  "scan_username world_ok (checker0\<lparr>sites := [site_status]\<rparr>) ''alice'' =
     (Inr \<lparr>found = [found_alice], not_found = [], errors = []\<rparr>,
      checker0\<lparr>sites := [site_status],
               results := \<lparr>found = [found_alice], not_found = [], errors = []\<rparr>\<rparr>)"
  by (simp add: scan_username_def tasks_def enumerate_eq_zip world_ok_def
        as_completed_single check_username_def dict_item_def format_template_def format_defs
        try_body_def detect_def categorize_def found_alice_def example_defs)

lemma scanned_once_eq:
  "scanned_once = checker0\<lparr>sites := [site_status],
                             results := \<lparr>found = [found_alice], not_found = [], errors = []\<rparr>\<rparr>"
  by (simp add: scanned_once_def first_scan)

lemma scan_again_value:
  "scan_username world_ok scanned_once ''alice'' =
     (Inr \<lparr>found = [found_alice, found_alice], not_found = [], errors = []\<rparr>,
      scanned_once\<lparr>results := \<lparr>found = [found_alice, found_alice], not_found = [], errors = []\<rparr>\<rparr>)"
  by (simp add: scanned_once_eq scan_username_def tasks_def enumerate_eq_zip world_ok_def
        as_completed_single check_username_def dict_item_def format_template_def format_defs
        try_body_def detect_def categorize_def found_alice_def example_defs)

theorem second_scan_total:
  "sites scanned_once = [site_status]
   \<and> fst (scan_username world_ok scanned_once ''alice'') =
       Inr \<lparr>found = [found_alice, found_alice], not_found = [], errors = []\<rparr>
   \<and> bucket_total \<lparr>found = [found_alice, found_alice], not_found = [], errors = []\<rparr>
       \<noteq> length (sites scanned_once)"
  by (simp add: scan_again_value bucket_total_def) (simp add: scanned_once_eq)

text \<open>
  When every request fails, the banner prints and the sites resolve, the scan still
  returns: nothing is
  added to \<^verbatim>\<open>found\<close> and \<^verbatim>\<open>not_found\<close>, and all \<open>|sites|\<close> results are added to
  \<^verbatim>\<open>errors\<close>.
\<close>

lemma failed_request_status:
  assumes "resolves rt username site'"
      and "\<forall>req. \<exists>e. client req = Raised e"
  shows "\<exists>v. snd (check_username rt draw self site' username client) = Inr v
           \<and> status v = ''error''"
proof -
  from assms(1) obtain n t u d where site:
    "site' ''name'' = Some n" "site' ''url_template'' = Some (PyStr t)"
    "str_format (format_beyond rt) t username = Inr u" "site' ''detection_type'' = Some d"
    by (auto simp: resolves_def split: option.splits pyval.splits sum.splits)
  from assms(2) obtain e where
    "client \<lparr>req_url = u, user_agent = random_choice USER_AGENTS draw,
             req_timeout = timeout self\<rparr> = Raised e"
    by blast
  then show ?thesis
    by (simp add: check_username_resolved [OF site] try_body_def handle_exception_fields)
qed

lemma every_request_fails:
  assumes "print_banner (interpreter w) username = None"
      and "\<forall>site' \<in> set (sites self). resolves (interpreter w) username site'"
      and "\<forall>i req. \<exists>e. network w i req = Raised e"
  shows "\<exists>r. scan_username w self username = (Inr r, self\<lparr>results := r\<rparr>)
           \<and> found r = found (results self)
           \<and> not_found r = not_found (results self)
           \<and> length (errors r) = length (errors (results self)) + length (sites self)"
proof -
  define vs where "vs = map projr (as_completed (order w) (tasks w self username))"
  define r where "r = foldl categorize (results self) vs"
  from assms(2) have returned: "\<forall>x \<in> set (tasks w self username). \<exists>v. x = Inr v"
    by (simp add: tasks_return)
  have scan: "scan_username w self username = (Inr r, self\<lparr>results := r\<rparr>)"
    using scan_returns [OF assms(1) returned] by (simp add: r_def vs_def)
  have "\<forall>x \<in> set (tasks w self username). \<exists>v. x = Inr v \<and> status v = ''error''"
    using assms(2,3) failed_request_status
    by (fastforce simp: tasks_def in_set_enumerate_eq)
  then have failed: "\<forall>v \<in> set vs. status v = ''error''"
    by (auto simp: vs_def set_as_completed)
  then have "filter (\<lambda>v. status v = ''found'') vs = []"
    and "filter (\<lambda>v. status v \<noteq> ''found'' \<and> status v = ''not_found'') vs = []"
    and "filter (\<lambda>v. status v \<noteq> ''found'' \<and> status v \<noteq> ''not_found'') vs = vs"
    by (auto simp: filter_empty_conv filter_id_conv)
  moreover have "length vs = length (sites self)"
    by (simp add: vs_def length_as_completed length_tasks)
  ultimately show ?thesis
    using scan by (simp add: r_def found_categorize not_found_categorize errors_categorize)
qed

section \<open>Scanning again\<close>

text \<open>
  Against a transport whose answer is a function of the URL and the timeout of the
  request, the result of a probe depends neither on the random User-Agent nor on the
  delay of the checker.
\<close>

lemma probe_deterministic:
  assumes "\<forall>req. client1 req = mock (req_url req) (req_timeout req)"
      and "\<forall>req. client2 req = mock (req_url req) (req_timeout req)"
      and "timeout self1 = timeout self2"
  shows "snd (check_username rt draw1 self1 site' username client1)
           = snd (check_username rt draw2 self2 site' username client2)"
  using assms
  by (auto simp: check_username_def try_body_def Let_def
           split: sum.splits transport_outcome.splits prod.splits option.splits)

lemma tasks_deterministic:
  assumes "\<forall>i req. network w1 i req = mock (req_url req) (req_timeout req)"
      and "\<forall>i req. network w2 i req = mock (req_url req) (req_timeout req)"
      and "interpreter w1 = interpreter w2"
      and "sites self1 = sites self2"
      and "timeout self1 = timeout self2"
  shows "tasks w1 self1 username = tasks w2 self2 username"
proof -
  have "snd (check_username (interpreter w1) (draws w1 i) self1 site' username (network w1 i))
          = snd (check_username (interpreter w2) (draws w2 i) self2 site' username (network w2 i))"
    for i site'
    unfolding assms(3)
    by (rule probe_deterministic [where mock = mock]) (simp_all add: assms)
  then show ?thesis
    by (simp add: tasks_def assms(4))
qed

text \<open>
  C7, as the code has it. Against a deterministic mock transport, a repeated scan (same
  identifier, same site list, same timeout) returns whenever the first one did and adds
  to each bucket the same multiset of results as the first one added, whatever the two
  orders of completion and the random draws. The buckets it returns are those it
  started from plus these results: two scans that start from equal buckets, such as the
  scans of two new checkers, return the same multiset of results in each bucket, while
  a second scan of the same checker starts from the buckets the first scan returned.
\<close>

theorem repeated_scan:
  assumes "\<forall>i req. network w1 i req = mock (req_url req) (req_timeout req)"
      and "\<forall>i req. network w2 i req = mock (req_url req) (req_timeout req)"
      and "interpreter w1 = interpreter w2"
      and "sites self1 = sites self2"
      and "timeout self1 = timeout self2"
      and "fst (scan_username w1 self1 username) = Inr r1"
  shows "\<exists>r2. scan_username w2 self2 username = (Inr r2, self2\<lparr>results := r2\<rparr>)
           \<and> mset (found r2) + mset (found (results self1))
                = mset (found r1) + mset (found (results self2))
           \<and> mset (not_found r2) + mset (not_found (results self1))
                = mset (not_found r1) + mset (not_found (results self2))
           \<and> mset (errors r2) + mset (errors (results self1))
                = mset (errors r1) + mset (errors (results self2))
           \<and> (results self1 = results self2 \<longrightarrow>
                mset (found r2) = mset (found r1)
                \<and> mset (not_found r2) = mset (not_found r1)
                \<and> mset (errors r2) = mset (errors r1))"
proof -
  define vs1 where "vs1 = map projr (as_completed (order w1) (tasks w1 self1 username))"
  define vs2 where "vs2 = map projr (as_completed (order w2) (tasks w2 self2 username))"
  define r2 where "r2 = foldl categorize (results self2) vs2"
  have same: "tasks w1 self1 username = tasks w2 self2 username"
    using assms(1-5) by (rule tasks_deterministic)
  from assms(6) have banner1: "print_banner (interpreter w1) username = None"
    and returned1: "\<forall>x \<in> set (tasks w1 self1 username). \<exists>v. x = Inr v"
    using scan_returns_iff [of w1 self1 username] by blast+
  from banner1 have banner2: "print_banner (interpreter w2) username = None"
    by (simp add: assms(3))
  from returned1 have returned2: "\<forall>x \<in> set (tasks w2 self2 username). \<exists>v. x = Inr v"
    by (simp add: same)
  have r1: "r1 = foldl categorize (results self1) vs1"
    using scan_returns [OF banner1 returned1] assms(6) by (simp add: vs1_def)
  have scan2: "scan_username w2 self2 username = (Inr r2, self2\<lparr>results := r2\<rparr>)"
    using scan_returns [OF banner2 returned2] by (simp add: r2_def vs2_def)
  have vs: "mset vs1 = mset vs2"
    by (simp add: vs1_def vs2_def same mset_as_completed)
  have found: "mset (found r2) + mset (found (results self1))
                 = mset (found r1) + mset (found (results self2))"
    by (simp add: r1 r2_def found_categorize vs)
  have not_found: "mset (not_found r2) + mset (not_found (results self1))
                 = mset (not_found r1) + mset (not_found (results self2))"
    by (simp add: r1 r2_def not_found_categorize vs)
  have errors: "mset (errors r2) + mset (errors (results self1))
                 = mset (errors r1) + mset (errors (results self2))"
    by (simp add: r1 r2_def errors_categorize vs)
  from found not_found errors
  have "results self1 = results self2 \<longrightarrow>
          mset (found r2) = mset (found r1)
          \<and> mset (not_found r2) = mset (not_found r1)
          \<and> mset (errors r2) = mset (errors r1)"
    by auto
  with scan2 found not_found errors show ?thesis
    by blast
qed

definition world_later :: world where
  "world_later = \<lparr>interpreter = refuse_extended, draws = (\<lambda>i. 4),
                  network = (\<lambda>i. respond 200 ''Welcome''), order = []\<rparr>"

definition mock_welcome :: "string \<Rightarrow> int \<Rightarrow> transport_outcome" where
  "mock_welcome url' t = Response 200 ''Welcome''"

definition found_alice_z :: verdict where
  "found_alice_z = \<lparr>site = PyStr ''Z'', url = ''https://z.test/u/alice'', status = ''found'',
                     error = None\<rparr>"

lemma first_scan_two_sites:
  "fst (scan_username world_ok (checker0\<lparr>sites := [site_status, site_body]\<rparr>) ''alice'') =
     Inr \<lparr>found = [found_alice_z, found_alice], not_found = [], errors = []\<rparr>"
  by (simp add: scan_username_def tasks_def enumerate_eq_zip world_ok_def
        as_completed_single check_username_def dict_item_def dict_get_def format_template_def
        format_defs try_body_def detect_def marker_in_body_def lower_def lower_ascii_char_def is_ascii_def
        categorize_def found_alice_def found_alice_z_def example_defs)

theorem repeated_scan_witness:
  "mset (found (projr (fst (scan_username world_later
           (UsernameChecker ''other.json'' 10 2\<lparr>sites := [site_status, site_body]\<rparr>) ''alice''))))
     = mset [found_alice_z, found_alice]
   \<and> not_found (projr (fst (scan_username world_later
           (UsernameChecker ''other.json'' 10 2\<lparr>sites := [site_status, site_body]\<rparr>) ''alice''))) = []
   \<and> errors (projr (fst (scan_username world_later
           (UsernameChecker ''other.json'' 10 2\<lparr>sites := [site_status, site_body]\<rparr>) ''alice''))) = []"
proof -
  let ?self1 = "checker0\<lparr>sites := [site_status, site_body]\<rparr>"
  let ?self2 = "UsernameChecker ''other.json'' 10 2\<lparr>sites := [site_status, site_body]\<rparr>"
  have mock1: "\<forall>i req. network world_ok i req = mock_welcome (req_url req) (req_timeout req)"
    and mock2: "\<forall>i req. network world_later i req = mock_welcome (req_url req) (req_timeout req)"
    and python: "interpreter world_ok = interpreter world_later"
    by (simp_all add: world_ok_def world_later_def mock_welcome_def respond_def)
  have sites: "sites ?self1 = sites ?self2"
    and timeouts: "timeout ?self1 = timeout ?self2"
    and buckets: "results ?self1 = results ?self2"
    by (simp_all add: checker0_def UsernameChecker_def)
  from repeated_scan [OF mock1 mock2 python sites timeouts first_scan_two_sites] buckets
  show ?thesis by auto
qed

text \<open>
  The wording of C7 in the specification, that the repeated scan yields the same
  multiset as the first, fails when the scan is repeated on the same checker: the first
  scan returns one result and the second returns it twice.
\<close>

theorem second_scan_differs:
  "fst (scan_username world_ok (checker0\<lparr>sites := [site_status]\<rparr>) ''alice'') =
     Inr \<lparr>found = [found_alice], not_found = [], errors = []\<rparr>
   \<and> scanned_once = snd (scan_username world_ok (checker0\<lparr>sites := [site_status]\<rparr>) ''alice'')
   \<and> fst (scan_username world_ok scanned_once ''alice'') =
       Inr \<lparr>found = [found_alice, found_alice], not_found = [], errors = []\<rparr>
   \<and> mset [found_alice, found_alice] \<noteq> mset [found_alice]"
  by (simp add: scan_again_value) (simp add: scanned_once_def first_scan)

section \<open>No site\<close>

text \<open>
  C9, as the code has it. A scan with an empty site list whose banner prints creates no
  task, raises nothing and returns the buckets as they were, leaving the checker as it
  was; on a checker as \<^verbatim>\<open>__init__\<close> made it, whose site list is empty, all three buckets
  are empty.
\<close>

theorem empty_scan:
  assumes "print_banner (interpreter w) username = None"
  shows "tasks w (self\<lparr>sites := []\<rparr>) username = []
         \<and> scan_username w (self\<lparr>sites := []\<rparr>) username
               = (Inr (results self), self\<lparr>sites := []\<rparr>)
         \<and> scan_username w (UsernameChecker file t r) username =
             (Inr \<lparr>found = [], not_found = [], errors = []\<rparr>, UsernameChecker file t r)"
  using assms
  by (simp add: scan_username_def tasks_def as_completed_Nil UsernameChecker_def)

theorem empty_scan_witness:
  "tasks world_ok (UsernameChecker ''sites.json'' 10 (1 / 2)) ''alice'' = []
   \<and> scan_username world_ok (UsernameChecker ''sites.json'' 10 (1 / 2)) ''alice'' =
       (Inr \<lparr>found = [], not_found = [], errors = []\<rparr>,
        UsernameChecker ''sites.json'' 10 (1 / 2))"
proof -
  have banner: "print_banner (interpreter world_ok) ''alice'' = None"
    by (simp add: world_ok_def refuse_extended_def)
  from empty_scan [OF banner, of "UsernameChecker ''sites.json'' 10 (1 / 2)"
                     "''sites.json''" 10 "1 / 2"]
  show ?thesis by (simp add: UsernameChecker_def)
qed

text \<open>
  The wording of C9 in the specification, that the three buckets are empty, fails when
  the site list of a checker that has scanned before is emptied: the scan returns the
  result of the earlier scan.
\<close>

theorem empty_scan_keeps_results:
  "sites (scanned_once\<lparr>sites := []\<rparr>) = []
   \<and> fst (scan_username world_ok (scanned_once\<lparr>sites := []\<rparr>) ''alice'') =
       Inr \<lparr>found = [found_alice], not_found = [], errors = []\<rparr>
   \<and> found \<lparr>found = [found_alice], not_found = [], errors = []\<rparr> \<noteq> []"
  by (simp add: scan_username_def tasks_def as_completed_Nil scanned_once_eq
        world_ok_def refuse_extended_def)

end
